theory Spec2Isabelle
  imports Complex_Main
begin

section \<open>Python values used by the order pipeline\<close>

text \<open>
  A Python \<open>str\<close> is modelled as a HOL \<open>string\<close> whose characters are ASCII code
  points; \<open>str.upper\<close>, \<open>str.strip\<close> and \<open>float\<close> below are the restrictions of the
  Python operations to such strings. Code points above 127 (Unicode case mapping,
  Unicode white space and Unicode decimal digits) are outside the model.
\<close>

subsection \<open>\<open>str.upper\<close>, \<open>str.strip\<close>, \<open>str.endswith\<close>\<close>

definition upper_char :: "char \<Rightarrow> char" where
  "upper_char c =
     (let n = (of_char c :: nat)
      in if 97 \<le> n \<and> n \<le> 122 then char_of (n - 32) else c)"

definition upper :: "string \<Rightarrow> string" where
  "upper s = map upper_char s"

text \<open>
  The characters \<open>str.strip()\<close> removes from an ASCII string: TAB, LF, VT, FF, CR,
  the four separators 0x1C to 0x1F, and the space.
\<close>

definition is_space :: "char \<Rightarrow> bool" where
  "is_space c \<longleftrightarrow>
     c \<in> set [CHR 0x09, CHR 0x0A, CHR 0x0B, CHR 0x0C, CHR 0x0D,
              CHR 0x1C, CHR 0x1D, CHR 0x1E, CHR 0x1F, CHR 0x20]"

definition strip :: "string \<Rightarrow> string" where
  "strip s = rev (dropWhile is_space (rev (dropWhile is_space s)))"

definition endswith :: "string \<Rightarrow> string \<Rightarrow> bool" where
  "endswith s t \<longleftrightarrow> length t \<le> length s \<and> drop (length s - length t) s = t"

subsection \<open>Floats\<close>

text \<open>
  A Python \<open>float\<close> is an IEEE binary64 value. It is kept as its class and, when
  finite, its exact rational value; the two zeros are not told apart (they compare
  equal, and the code only compares).
\<close>

datatype pyfloat = Finite rat | PInf | NInf | NaN

text \<open>\<open>x <= 0\<close> on floats: every comparison with NaN is false.\<close>

fun float_le_zero :: "pyfloat \<Rightarrow> bool" where
  "float_le_zero (Finite r) = (r \<le> 0)"
| "float_le_zero PInf = False"
| "float_le_zero NInf = True"
| "float_le_zero NaN = False"

text \<open>\<open>x > 0\<close> on floats.\<close>

fun float_gt_zero :: "pyfloat \<Rightarrow> bool" where
  "float_gt_zero (Finite r) = (0 < r)"
| "float_gt_zero PInf = True"
| "float_gt_zero NInf = False"
| "float_gt_zero NaN = False"

fun is_finite :: "pyfloat \<Rightarrow> bool" where
  "is_finite (Finite r) = True"
| "is_finite PInf = False"
| "is_finite NInf = False"
| "is_finite NaN = False"

text \<open>Number of binary digits of a natural number.\<close>

fun bitlen_nat :: "nat \<Rightarrow> nat" where
  "bitlen_nat n = (if n = 0 then 0 else Suc (bitlen_nat (n div 2)))"

declare bitlen_nat.simps [simp del]

text \<open>For \<open>a > 0\<close>, the integer \<open>e\<close> with \<open>2 ^ e \<le> a < 2 ^ (e + 1)\<close>.\<close>

definition floor_log2 :: "rat \<Rightarrow> int" where
  "floor_log2 a =
     (if 1 \<le> a then int (bitlen_nat (nat \<lfloor>a\<rfloor>)) - 1
      else - int (bitlen_nat (nat (\<lceil>1 / a\<rceil> - 1))))"

definition pow2 :: "int \<Rightarrow> rat" where
  "pow2 e = (if 0 \<le> e then 2 ^ nat e else 1 / 2 ^ nat (- e))"

definition pow10 :: "int \<Rightarrow> rat" where
  "pow10 e = (if 0 \<le> e then 10 ^ nat e else 1 / 10 ^ nat (- e))"

text \<open>Rounding to the nearest integer, ties to the even one.\<close>

definition round_half_even :: "rat \<Rightarrow> int" where
  "round_half_even x =
     (let f = \<lfloor>x\<rfloor>; r = x - of_int f
      in if r < 1 / 2 then f
         else if 1 / 2 < r then f + 1
         else if even f then f else f + 1)"

text \<open>
  The correctly rounded binary64 value of a rational (what CPython's \<open>strtod\<close>
  returns for a decimal string of that value): 53 significant bits, least exponent
  \<open>-1074\<close>, round to nearest with ties to even, overflow to an infinity.
\<close>

definition round64 :: "rat \<Rightarrow> pyfloat" where
  "round64 q =
     (if q = 0 then Finite 0
      else
        let a = \<bar>q\<bar>;
            e = max (floor_log2 a - 52) (- 1074);
            m = round_half_even (a / pow2 e);
            v = of_int m * pow2 e
        in if pow2 1024 \<le> v then (if q < 0 then NInf else PInf)
           else Finite (if q < 0 then - v else v))"

subsection \<open>\<open>float(str)\<close>\<close>

text \<open>The white space \<open>float\<close> skips at both ends of an ASCII string.\<close>

definition is_float_space :: "char \<Rightarrow> bool" where
  "is_float_space c \<longleftrightarrow>
     c \<in> set [CHR 0x09, CHR 0x0A, CHR 0x0B, CHR 0x0C, CHR 0x0D, CHR 0x20]"

definition is_digit :: "char \<Rightarrow> bool" where
  "is_digit c \<longleftrightarrow> c \<in> set ''0123456789''"

definition digit_val :: "char \<Rightarrow> nat" where
  "digit_val c = of_char c - 48"

text \<open>The value of a digit string, most significant digit first.\<close>

definition digits_val :: "string \<Rightarrow> nat" where
  "digits_val ds = foldl (\<lambda>acc c. 10 * acc + digit_val c) 0 ds"

text \<open>
  Underscores: one is allowed only between two digits; the accepted string is returned
  without them. \<open>prev\<close> is the character before, \<open>None\<close> at the start.
\<close>

fun strip_underscores :: "char option \<Rightarrow> string \<Rightarrow> string option" where
  "strip_underscores prev [] = (if prev = Some CHR ''_'' then None else Some [])"
| "strip_underscores prev (c # cs) =
     (if c = CHR ''_'' then
        (case prev of
           None \<Rightarrow> None
         | Some p \<Rightarrow> if is_digit p then strip_underscores (Some c) cs else None)
      else if prev = Some CHR ''_'' \<and> \<not> is_digit c then None
      else map_option ((#) c) (strip_underscores (Some c) cs))"

definition take_sign :: "string \<Rightarrow> bool \<times> string" where
  "take_sign s =
     (case s of
        [] \<Rightarrow> (False, [])
      | c # cs \<Rightarrow>
          if c = CHR ''-'' then (True, cs)
          else if c = CHR ''+'' then (False, cs)
          else (False, s))"

text \<open>The exponent part: empty, or \<open>e\<close>/\<open>E\<close>, an optional sign and at least one digit.\<close>

definition parse_exponent :: "string \<Rightarrow> int option" where
  "parse_exponent s =
     (case s of
        [] \<Rightarrow> Some 0
      | c # cs \<Rightarrow>
          if c = CHR ''e'' \<or> c = CHR ''E'' then
            (let (neg, ds) = take_sign cs
             in if ds \<noteq> [] \<and> list_all is_digit ds
                then Some (if neg then - int (digits_val ds) else int (digits_val ds))
                else None)
          else None)"

text \<open>
  A decimal number: optional sign, digits, optional point and digits, optional
  exponent, with at least one digit before the exponent. The result is its exact value.
\<close>

definition parse_number :: "string \<Rightarrow> rat option" where
  "parse_number s =
     (let (neg, s1) = take_sign s;
          ip = takeWhile is_digit s1;
          r1 = dropWhile is_digit s1;
          (fp, r2) =
            (case r1 of
               [] \<Rightarrow> ([], [])
             | c # cs \<Rightarrow>
                 if c = CHR ''.'' then (takeWhile is_digit cs, dropWhile is_digit cs)
                 else ([], r1))
      in if ip = [] \<and> fp = [] then None
         else
           (case parse_exponent r2 of
              None \<Rightarrow> None
            | Some e \<Rightarrow>
                Some ((if neg then - 1 else 1) * of_nat (digits_val (ip @ fp))
                      * pow10 (e - int (length fp)))))"

definition lower_char :: "char \<Rightarrow> char" where
  "lower_char c =
     (let n = (of_char c :: nat)
      in if 65 \<le> n \<and> n \<le> 90 then char_of (n + 32) else c)"

text \<open>\<open>inf\<close>, \<open>infinity\<close> and \<open>nan\<close>, in any case, after an optional sign.\<close>

definition parse_inf_or_nan :: "string \<Rightarrow> pyfloat option" where
  "parse_inf_or_nan s =
     (let (neg, t) = take_sign s;
          w = map lower_char t
      in if w = ''inf'' \<or> w = ''infinity'' then Some (if neg then NInf else PInf)
         else if w = ''nan'' then Some NaN
         else None)"

text \<open>
  What \<open>float\<close> does before it reads the number: white space is removed at both
  ends (a string of white space only is refused), then the underscores.
\<close>

definition float_prepare :: "string \<Rightarrow> string option" where
  "float_prepare s =
     (let t = rev (dropWhile is_float_space (rev (dropWhile is_float_space s)))
      in if t = [] then None
         else if CHR ''_'' \<in> set t then strip_underscores None t
         else Some t)"

text \<open>
  \<open>float(s)\<close> for a string: \<open>None\<close> stands for \<open>ValueError\<close>. The whole prepared
  string must be a number, which is then rounded, or one of the special names.
\<close>

definition py_float :: "string \<Rightarrow> pyfloat option" where
  "py_float s =
     (case float_prepare s of
        None \<Rightarrow> None
      | Some u \<Rightarrow>
          (case parse_number u of
             Some q \<Rightarrow> Some (round64 q)
           | None \<Rightarrow> parse_inf_or_nan u))"

section \<open>Parameter validation (\<open>bot/validators.py\<close>)\<close>

datatype exn =
    ValidationError string
  | KeyError string
  | BinanceAPIException int string
  | BinanceRequestException string
  | OtherException string

definition validate_symbol :: "string \<Rightarrow> exn + string" where
  "validate_symbol symbol =
     (if symbol = [] then Inl (ValidationError ''Symbol cannot be empty'')
      else
        let symbol' = strip (upper symbol)
        in if \<not> endswith symbol' ''USDT''
           then Inl (ValidationError ''Symbol must end with 'USDT' for USDT-M futures'')
           else if length symbol' < 5 then Inl (ValidationError ''Symbol is too short'')
           else Inr symbol')"

definition validate_side :: "string \<Rightarrow> exn + string" where
  "validate_side side =
     (let side' = strip (upper side)
      in if side' \<notin> set [''BUY'', ''SELL'']
         then Inl (ValidationError (''Side must be 'BUY' or 'SELL'' @ [CHR 0x27]))
         else Inr side')"

definition validate_order_type :: "string \<Rightarrow> exn + string" where
  "validate_order_type order_type =
     (let order_type' = strip (upper order_type)
      in if order_type' \<notin> set [''MARKET'', ''LIMIT'']
         then Inl (ValidationError (''Order type must be 'MARKET' or 'LIMIT'' @ [CHR 0x27]))
         else Inr order_type')"

definition validate_quantity :: "string \<Rightarrow> exn + pyfloat" where
  "validate_quantity quantity =
     (case py_float quantity of
        None \<Rightarrow> Inl (ValidationError ''Quantity must be a valid number'')
      | Some qty \<Rightarrow>
          if float_le_zero qty
          then Inl (ValidationError ''Quantity must be greater than 0'')
          else Inr qty)"

definition validate_price :: "string option \<Rightarrow> exn + pyfloat option" where
  "validate_price price =
     (if price = None \<or> price = Some [] then Inr None
      else
        (case py_float (the price) of
           None \<Rightarrow> Inl (ValidationError ''Price must be a valid number'')
         | Some p \<Rightarrow>
             if float_le_zero p
             then Inl (ValidationError ''Price must be greater than 0'')
             else Inr (Some p)))"

text \<open>
  The validated dictionary. Its first four keys are always present; \<open>v_price\<close> is
  \<open>None\<close> when the key \<open>'price'\<close> is absent and \<open>Some v\<close> when it is present with
  the value \<open>v\<close> (itself Python's \<open>None\<close> or a float, as \<open>validate_price\<close> returns).
\<close>

record validated =
  v_symbol :: string
  v_side :: string
  v_type :: string
  v_quantity :: pyfloat
  v_price :: "pyfloat option option"

definition validate_order_params ::
  "string \<Rightarrow> string \<Rightarrow> string \<Rightarrow> string \<Rightarrow> string option \<Rightarrow> exn + validated" where
  "validate_order_params symbol side order_type quantity price =
     (case validate_symbol symbol of
        Inl e \<Rightarrow> Inl e
      | Inr sy \<Rightarrow>
     (case validate_side side of
        Inl e \<Rightarrow> Inl e
      | Inr sd \<Rightarrow>
     (case validate_order_type order_type of
        Inl e \<Rightarrow> Inl e
      | Inr ty \<Rightarrow>
     (case validate_quantity quantity of
        Inl e \<Rightarrow> Inl e
      | Inr qty \<Rightarrow>
          let validated =
                \<lparr>v_symbol = sy, v_side = sd, v_type = ty, v_quantity = qty, v_price = None\<rparr>
          in if v_type validated = ''LIMIT'' then
               (if price = None \<or> price = Some []
                then Inl (ValidationError ''Price is required for LIMIT orders'')
                else
                  (case validate_price price of
                     Inl e \<Rightarrow> Inl e
                   | Inr p \<Rightarrow> Inr (validated\<lparr>v_price := Some p\<rparr>)))
             else if price \<noteq> None \<and> price \<noteq> Some []
             then Inl (ValidationError ''Price should not be specified for MARKET orders'')
             else Inr validated))))"

section \<open>Exchange responses and the connector\<close>

text \<open>
  A parsed JSON value. A Python \<open>dict\<close> with string keys is an association list in
  insertion order, read with \<open>map_of\<close>.
\<close>

datatype json =
    JNull
  | JBool bool
  | JInt int
  | JFloat pyfloat
  | JStr string
  | JList "json list"
  | JObj "(string \<times> json) list"

type_synonym pydict = "(string \<times> json) list"

text \<open>
  The three methods of the connector that the order manager calls.
  \<open>get_symbol_info\<close> returns \<open>None\<close> instead of raising; the two placement methods
  return the exchange's response or raise.
\<close>

record client =
  get_symbol_info :: "string \<Rightarrow> pydict option"
  place_market_order :: "string \<Rightarrow> string \<Rightarrow> pyfloat \<Rightarrow> exn + pydict"
  place_limit_order :: "string \<Rightarrow> string \<Rightarrow> pyfloat \<Rightarrow> pyfloat option \<Rightarrow> exn + pydict"

text \<open>The connector methods invoked, in order.\<close>

datatype call =
    GetSymbolInfo string
  | PlaceMarketOrder string string pyfloat
  | PlaceLimitOrder string string pyfloat "pyfloat option"

text \<open>
  A log record is the list of the pieces of its f-string; how a float or a JSON value
  is printed is not modelled.
\<close>

datatype log_part = Txt string | Flt pyfloat | OptFlt "pyfloat option" | Val json

type_synonym log_line = "log_part list"

record om_state =
  calls :: "call list"
  logged :: "log_line list"

definition log_info :: "log_line \<Rightarrow> om_state \<Rightarrow> om_state" where
  "log_info l st = st\<lparr>logged := logged st @ [l]\<rparr>"

definition record_call :: "call \<Rightarrow> om_state \<Rightarrow> om_state" where
  "record_call c st = st\<lparr>calls := calls st @ [c]\<rparr>"

section \<open>The order manager (\<open>bot/orders.py\<close>)\<close>

definition rule60 :: log_line where
  "rule60 = [Txt (replicate 60 CHR ''='')]"

text \<open>\<open>response.get(key, 'N/A')\<close>\<close>

definition get_or_na :: "pydict \<Rightarrow> string \<Rightarrow> json" where
  "get_or_na response k = (case map_of response k of None \<Rightarrow> JStr ''N/A'' | Some v \<Rightarrow> v)"

text \<open>\<open>v in ['0', 0, '', None]\<close>: Python's \<open>==\<close> makes \<open>0.0\<close> and \<open>False\<close> equal to \<open>0\<close>.\<close>

fun avg_price_blank :: "json \<Rightarrow> bool" where
  "avg_price_blank (JStr s) = (s = ''0'' \<or> s = [])"
| "avg_price_blank (JInt i) = (i = 0)"
| "avg_price_blank (JFloat f) = (f = Finite 0)"
| "avg_price_blank (JBool b) = (\<not> b)"
| "avg_price_blank JNull = True"
| "avg_price_blank (JList xs) = False"
| "avg_price_blank (JObj kvs) = False"

definition order_response_lines :: "pydict \<Rightarrow> log_line list" where
  "order_response_lines response =
     [rule60, [Txt ''ORDER RESPONSE''], rule60,
      [Txt ''Order ID:       '', Val (get_or_na response ''orderId'')],
      [Txt ''Client Order ID: '', Val (get_or_na response ''clientOrderId'')],
      [Txt ''Symbol:         '', Val (get_or_na response ''symbol'')],
      [Txt ''Status:         '', Val (get_or_na response ''status'')],
      [Txt ''Type:           '', Val (get_or_na response ''type'')],
      [Txt ''Side:           '', Val (get_or_na response ''side'')],
      [Txt ''Price:          '', Val (get_or_na response ''price'')],
      [Txt ''Original Qty:   '', Val (get_or_na response ''origQty'')],
      [Txt ''Executed Qty:   '', Val (get_or_na response ''executedQty'')]]
     @ (case map_of response ''avgPrice'' of
          None \<Rightarrow> []
        | Some v \<Rightarrow> if avg_price_blank v then [] else [[Txt ''Average Price:  '', Val v]])
     @ [[Txt ''Time in Force:  '', Val (get_or_na response ''timeInForce'')],
        [Txt ''Update Time:    '', Val (get_or_na response ''updateTime'')],
        rule60]"

definition log_order_response :: "pydict \<Rightarrow> om_state \<Rightarrow> om_state" where
  "log_order_response response st = st\<lparr>logged := logged st @ order_response_lines response\<rparr>"

definition market_request_lines :: "validated \<Rightarrow> log_line list" where
  "market_request_lines params =
     [rule60, [Txt ''MARKET ORDER REQUEST''], rule60,
      [Txt ''Symbol:   '', Txt (v_symbol params)],
      [Txt ''Side:     '', Txt (v_side params)],
      [Txt ''Quantity: '', Flt (v_quantity params)],
      rule60]"

definition om_place_market_order ::
  "client \<Rightarrow> validated \<Rightarrow> om_state \<Rightarrow> (exn + pydict) \<times> om_state" where
  "om_place_market_order c params st =
     (let st1 = st\<lparr>logged := logged st @ market_request_lines params\<rparr>;
          st2 = record_call
                  (PlaceMarketOrder (v_symbol params) (v_side params) (v_quantity params)) st1
      in case place_market_order c (v_symbol params) (v_side params) (v_quantity params) of
           Inl e \<Rightarrow> (Inl e, st2)
         | Inr response \<Rightarrow> (Inr response, log_order_response response st2))"

definition limit_request_lines_head :: "validated \<Rightarrow> log_line list" where
  "limit_request_lines_head params =
     [rule60, [Txt ''LIMIT ORDER REQUEST''], rule60,
      [Txt ''Symbol:   '', Txt (v_symbol params)],
      [Txt ''Side:     '', Txt (v_side params)],
      [Txt ''Quantity: '', Flt (v_quantity params)]]"

text \<open>\<open>params['price']\<close> raises \<open>KeyError\<close> when the key is absent.\<close>

definition om_place_limit_order ::
  "client \<Rightarrow> validated \<Rightarrow> om_state \<Rightarrow> (exn + pydict) \<times> om_state" where
  "om_place_limit_order c params st =
     (let st1 = st\<lparr>logged := logged st @ limit_request_lines_head params\<rparr>
      in case v_price params of
           None \<Rightarrow> (Inl (KeyError ''price''), st1)
         | Some price \<Rightarrow>
             let st2 = log_info rule60 (log_info [Txt ''Price:    '', OptFlt price] st1);
                 st3 = record_call
                         (PlaceLimitOrder (v_symbol params) (v_side params)
                            (v_quantity params) price) st2
             in case place_limit_order c (v_symbol params) (v_side params)
                       (v_quantity params) price of
                  Inl e \<Rightarrow> (Inl e, st3)
                | Inr response \<Rightarrow> (Inr response, log_order_response response st3))"

definition place_order ::
  "client \<Rightarrow> string \<Rightarrow> string \<Rightarrow> string \<Rightarrow> string \<Rightarrow> string option \<Rightarrow> om_state
     \<Rightarrow> (exn + pydict) \<times> om_state" where
  "place_order c symbol side order_type quantity price st =
     (let st1 = log_info [Txt ''Validating order parameters...''] st
      in case validate_order_params symbol side order_type quantity price of
           Inl e \<Rightarrow> (Inl e, st1)
         | Inr params \<Rightarrow>
             let st2 = log_info
                         [Txt ''Order validated: '', Txt (v_type params), Txt '' '',
                          Txt (v_side params), Txt '' '', Flt (v_quantity params), Txt '' '',
                          Txt (v_symbol params)] st1;
                 st3 = record_call (GetSymbolInfo (v_symbol params)) st2;
                 symbol_info = get_symbol_info c (v_symbol params)
             in if symbol_info = None \<or> symbol_info = Some []
                then (Inl (ValidationError
                             (''Symbol '' @ v_symbol params @ '' not found or not tradable'')),
                      st3)
                else if map_of (the symbol_info) ''status'' \<noteq> Some (JStr ''TRADING'')
                then (Inl (ValidationError
                             (''Symbol '' @ v_symbol params @ '' is not currently trading'')),
                      st3)
                else if v_type params = ''MARKET''
                then om_place_market_order c params st3
                else om_place_limit_order c params st3)"

section \<open>The connector's own checks (\<open>bot/client.py\<close>)\<close>

text \<open>
  What the connector needs from outside: the clock, the HTTP library, and the standard
  library's \<open>urlencode\<close> and HMAC-SHA-256 hex digest (of a key and a message, both
  given as their UTF-8 bytes, which for ASCII text are the characters themselves).
\<close>

record http_response =
  status_code :: int
  text_of :: string

record world =
  time_ms :: int
  requests_get :: "string \<Rightarrow> (string \<times> string) list \<Rightarrow> pydict \<Rightarrow> exn + http_response"
  urlencode :: "pydict \<Rightarrow> string"
  hmac_sha256_hexdigest :: "string \<Rightarrow> string \<Rightarrow> string"

record binance_testnet_client =
  api_key :: string
  api_secret :: string

definition TESTNET_BASE_URL :: string where
  "TESTNET_BASE_URL = ''https://testnet.binancefuture.com''"

definition generate_signature :: "world \<Rightarrow> binance_testnet_client \<Rightarrow> pydict \<Rightarrow> string" where
  "generate_signature w self params =
     (let query_string = urlencode w params
      in hmac_sha256_hexdigest w (api_secret self) query_string)"

text \<open>The body of the \<open>try\<close> block of \<open>test_connection\<close>.\<close>

definition test_connection_try :: "world \<Rightarrow> binance_testnet_client \<Rightarrow> exn + bool" where
  "test_connection_try w self =
     (let url = TESTNET_BASE_URL @ ''/fapi/v2/account'';
          timestamp = time_ms w;
          params = [(''timestamp'', JInt timestamp)];
          params' = params @ [(''signature'', JStr (generate_signature w self params))];
          headers = [(''X-MBX-APIKEY'', api_key self)]
      in case requests_get w url headers params' of
           Inl e \<Rightarrow> Inl e
         | Inr response \<Rightarrow> Inr (status_code response = 200))"

text \<open>\<open>except Exception: return False\<close>\<close>

definition test_connection :: "world \<Rightarrow> binance_testnet_client \<Rightarrow> exn + bool" where
  "test_connection w self =
     (case test_connection_try w self of
        Inl e \<Rightarrow> Inr False
      | Inr b \<Rightarrow> Inr b)"

section \<open>Example connectors and the specification's reading of two claims\<close>

text \<open>A connector whose exchange lists every symbol with status \<open>BREAK\<close>.\<close>

definition client_break :: client where
  "client_break =
     \<lparr>get_symbol_info = (\<lambda>s. Some [(''symbol'', JStr s), (''status'', JStr ''BREAK'')]),
      place_market_order = (\<lambda>sy sd q. Inr []),
      place_limit_order = (\<lambda>sy sd q p. Inr [])\<rparr>"

text \<open>A connector that finds no symbol.\<close>

definition client_absent :: client where
  "client_absent =
     \<lparr>get_symbol_info = (\<lambda>s. None),
      place_market_order = (\<lambda>sy sd q. Inr []),
      place_limit_order = (\<lambda>sy sd q p. Inr [])\<rparr>"

text \<open>
  A connector whose exchange trades every symbol and answers an order with a response
  that holds an order identifier only.
\<close>

definition client_sparse :: client where
  "client_sparse =
     \<lparr>get_symbol_info = (\<lambda>s. Some [(''symbol'', JStr s), (''status'', JStr ''TRADING'')]),
      place_market_order = (\<lambda>sy sd q. Inr [(''orderId'', JInt 1)]),
      place_limit_order = (\<lambda>sy sd q p. Inr [(''orderId'', JInt 1)])\<rparr>"

definition st0 :: om_state where
  "st0 = \<lparr>calls = [], logged = []\<rparr>"

text \<open>\<open>isinstance(e, ValidationError)\<close>\<close>

fun is_validation_error :: "exn \<Rightarrow> bool" where
  "is_validation_error (ValidationError m) = True"
| "is_validation_error (KeyError k) = False"
| "is_validation_error (BinanceAPIException c m) = False"
| "is_validation_error (BinanceRequestException m) = False"
| "is_validation_error (OtherException m) = False"

text \<open>
  The normalised order result in the specification's words: the listed fields, each
  with a sentinel when the exchange's response lacks it, the average price only when
  the response has one. The sentinel is the one the code uses in its log, \<open>'N/A'\<close>.
\<close>

definition spec_order_result :: "pydict \<Rightarrow> pydict" where
  "spec_order_result raw =
     map (\<lambda>k. (k, get_or_na raw k))
       [''orderId'', ''clientOrderId'', ''symbol'', ''status'', ''type'', ''side'', ''price'',
        ''origQty'', ''executedQty'']
     @ (case map_of raw ''avgPrice'' of None \<Rightarrow> [] | Some v \<Rightarrow> [(''avgPrice'', v)])
     @ map (\<lambda>k. (k, get_or_na raw k)) [''timeInForce'', ''updateTime'']"

text \<open>What \<open>place_order\<close> treats as a symbol it must not trade.\<close>

definition not_tradable :: "pydict option \<Rightarrow> bool" where
  "not_tradable si \<longleftrightarrow>
     si = None \<or> si = Some [] \<or> map_of (the si) ''status'' \<noteq> Some (JStr ''TRADING'')"

text \<open>
  The validation in the specification's words: the six rules in the order the
  specification lists them, the price parsed (rule 5) before the cross-field rule
  (rule 6) whatever the order type. Each rule reports what the code's check for it
  reports.
\<close>

definition spec_validate_order_params ::
  "string \<Rightarrow> string \<Rightarrow> string \<Rightarrow> string \<Rightarrow> string option \<Rightarrow> exn + validated" where
  "spec_validate_order_params symbol side order_type quantity price =
     (case validate_symbol symbol of
        Inl e \<Rightarrow> Inl e
      | Inr sy \<Rightarrow>
     (case validate_side side of
        Inl e \<Rightarrow> Inl e
      | Inr sd \<Rightarrow>
     (case validate_order_type order_type of
        Inl e \<Rightarrow> Inl e
      | Inr ty \<Rightarrow>
     (case validate_quantity quantity of
        Inl e \<Rightarrow> Inl e
      | Inr qty \<Rightarrow>
     (case validate_price price of
        Inl e \<Rightarrow> Inl e
      | Inr p \<Rightarrow>
          if ty = ''LIMIT'' then
            (if p = None then Inl (ValidationError ''Price is required for LIMIT orders'')
             else Inr \<lparr>v_symbol = sy, v_side = sd, v_type = ty, v_quantity = qty,
                       v_price = Some p\<rparr>)
          else if p \<noteq> None
          then Inl (ValidationError ''Price should not be specified for MARKET orders'')
          else Inr \<lparr>v_symbol = sy, v_side = sd, v_type = ty, v_quantity = qty,
                    v_price = None\<rparr>)))))"

text \<open>
  The rules in the order the code applies them. Each entry is the failure of one rule
  on the raw input, \<open>None\<close> when the rule holds; the cross-field rule comes before the
  price is parsed, and the price is parsed for a LIMIT order only.
\<close>

definition failure :: "exn + 'a \<Rightarrow> exn option" where
  "failure r = (case r of Inl e \<Rightarrow> Some e | Inr v \<Rightarrow> None)"

definition price_given :: "string option \<Rightarrow> bool" where
  "price_given price \<longleftrightarrow> price \<noteq> None \<and> price \<noteq> Some []"

definition cross_field_failure :: "string \<Rightarrow> string option \<Rightarrow> exn option" where
  "cross_field_failure order_type price =
     (case validate_order_type order_type of
        Inl e \<Rightarrow> None
      | Inr ty \<Rightarrow>
          if ty = ''LIMIT'' then
            (if price_given price then None
             else Some (ValidationError ''Price is required for LIMIT orders''))
          else if price_given price
          then Some (ValidationError ''Price should not be specified for MARKET orders'')
          else None)"

definition limit_price_failure :: "string \<Rightarrow> string option \<Rightarrow> exn option" where
  "limit_price_failure order_type price =
     (if validate_order_type order_type = Inr ''LIMIT'' then failure (validate_price price)
      else None)"

definition rules_in_code_order ::
  "string \<Rightarrow> string \<Rightarrow> string \<Rightarrow> string \<Rightarrow> string option \<Rightarrow> exn option list" where
  "rules_in_code_order symbol side order_type quantity price =
     [failure (validate_symbol symbol),
      failure (validate_side side),
      failure (validate_order_type order_type),
      failure (validate_quantity quantity),
      cross_field_failure order_type price,
      limit_price_failure order_type price]"

fun first_failure :: "exn option list \<Rightarrow> exn option" where
  "first_failure [] = None"
| "first_failure (Some e # rs) = Some e"
| "first_failure (None # rs) = first_failure rs"

section \<open>Evaluating the model on concrete inputs\<close>

lemma floor_rat_numeral_div:
  "\<lfloor>numeral a / numeral b :: rat\<rfloor> = numeral a div numeral b"
  by (metis floor_divide_of_int_eq of_int_numeral)

lemma ceiling_rat_numeral_div:
  "\<lceil>numeral a / numeral b :: rat\<rceil> = - (- numeral a div numeral b)"
  using ceiling_divide_eq_div[of "numeral a" "numeral b", where ?'a = rat] by simp

lemma bitlen_nat_0: "bitlen_nat 0 = 0"
  by (simp add: bitlen_nat.simps)

lemma bitlen_nat_Suc_0: "bitlen_nat (Suc 0) = 1"
  by (simp add: bitlen_nat.simps)

lemma bitlen_nat_One: "bitlen_nat (numeral Num.One) = 1"
  by (simp add: bitlen_nat.simps)

lemma bitlen_nat_Bit0: "bitlen_nat (numeral (Num.Bit0 k)) = Suc (bitlen_nat (numeral k))"
  by (subst bitlen_nat.simps) simp

lemma bitlen_nat_Bit1: "bitlen_nat (numeral (Num.Bit1 k)) = Suc (bitlen_nat (numeral k))"
proof -
  have "numeral (Num.Bit1 k) div (2::nat) = numeral k"
    by simp
  then show ?thesis
    by (subst bitlen_nat.simps) simp
qed

lemmas float_eval =
  py_float_def float_prepare_def is_float_space_def parse_number_def take_sign_def
  is_digit_def parse_exponent_def digits_val_def digit_val_def pow10_def
  parse_inf_or_nan_def lower_char_def round64_def floor_log2_def pow2_def
  round_half_even_def Let_def floor_rat_numeral_div ceiling_rat_numeral_div
  bitlen_nat_0 bitlen_nat_Suc_0 bitlen_nat_One bitlen_nat_Bit0 bitlen_nat_Bit1

lemma py_float_2500_5: "py_float ''2500.5'' = Some (Finite (5001 / 2))"
  by (simp add: float_eval)

lemma py_float_0_01:
  "py_float ''0.01'' = Some (Finite (5764607523034235 / 576460752303423488))"
  by (simp add: float_eval)

lemma py_float_1: "py_float ''1'' = Some (Finite 1)"
  by (simp add: float_eval)

lemma py_float_0: "py_float ''0'' = Some (Finite 0)"
  by (simp add: float_eval)

lemma py_float_nan: "py_float ''nan'' = Some NaN"
  by (simp add: float_eval)

lemma py_float_inf: "py_float ''inf'' = Some PInf"
  by (simp add: float_eval)

lemma py_float_abc: "py_float ''abc'' = None"
  by (simp add: float_eval)

lemma validate_symbol_btcusdt: "validate_symbol ''btcusdt'' = Inr ''BTCUSDT''"
  by code_simp

lemma validate_symbol_BTCUSDT: "validate_symbol ''BTCUSDT'' = Inr ''BTCUSDT''"
  by code_simp

lemma validate_symbol_ETHUSDT: "validate_symbol ''ETHUSDT'' = Inr ''ETHUSDT''"
  by code_simp

lemma validate_side_buy: "validate_side ''buy'' = Inr ''BUY''"
  by code_simp

lemma validate_side_BUY: "validate_side ''BUY'' = Inr ''BUY''"
  by code_simp

lemma validate_side_SELL: "validate_side ''SELL'' = Inr ''SELL''"
  by code_simp

lemma validate_order_type_market: "validate_order_type ''market'' = Inr ''MARKET''"
  by code_simp

lemma validate_order_type_MARKET: "validate_order_type ''MARKET'' = Inr ''MARKET''"
  by code_simp

lemma validate_order_type_LIMIT: "validate_order_type ''LIMIT'' = Inr ''LIMIT''"
  by code_simp

section \<open>The two validation scenarios\<close>

text \<open>
  Claim C9. \<open>validate("btcusdt", "buy", "market", "0.01", None)\<close> succeeds with symbol
  \<open>BTCUSDT\<close>, side \<open>BUY\<close>, type \<open>MARKET\<close>, quantity \<open>0.01\<close> and no price key, and
  \<open>validate("ETHUSDT", "SELL", "LIMIT", "0.01", "2500.5")\<close> succeeds with price
  \<open>2500.5\<close>. The quantity is the binary64 number nearest to one hundredth,
  \<open>5764607523034235 / 2 ^ 59\<close>, which is what Python writes as \<open>0.01\<close>.
\<close>

theorem C9_scenarios:
  "validate_order_params ''btcusdt'' ''buy'' ''market'' ''0.01'' None =
     Inr \<lparr>v_symbol = ''BTCUSDT'', v_side = ''BUY'', v_type = ''MARKET'',
          v_quantity = Finite (5764607523034235 / 576460752303423488), v_price = None\<rparr> \<and>
   validate_order_params ''ETHUSDT'' ''SELL'' ''LIMIT'' ''0.01'' (Some ''2500.5'') =
     Inr \<lparr>v_symbol = ''ETHUSDT'', v_side = ''SELL'', v_type = ''LIMIT'',
          v_quantity = Finite (5764607523034235 / 576460752303423488),
          v_price = Some (Some (Finite (5001 / 2)))\<rparr>"
  by (simp add: validate_order_params_def validate_quantity_def validate_price_def
      validate_symbol_btcusdt validate_symbol_ETHUSDT validate_side_buy validate_side_SELL
      validate_order_type_market validate_order_type_LIMIT py_float_0_01 py_float_2500_5)

section \<open>Normalisation is idempotent\<close>

lemma upper_char_idem: "upper_char (upper_char c) = upper_char c"
proof (cases "97 \<le> (of_char c :: nat) \<and> (of_char c :: nat) \<le> 122")
  case True
  then have "(of_char c :: nat) - 32 < 256"
    by linarith
  then have "(of_char (char_of ((of_char c :: nat) - 32)) :: nat) = of_char c - 32"
    by simp
  moreover have "\<not> 97 \<le> (of_char c :: nat) - 32"
    using True by linarith
  ultimately show ?thesis
    using True by (simp add: upper_char_def Let_def)
next
  case False
  then have "upper_char c = c"
    by (auto simp: upper_char_def Let_def)
  then show ?thesis
    by simp
qed

lemma upper_fixes_upper: "c \<in> set (upper s) \<Longrightarrow> upper_char c = c"
  by (auto simp: upper_def upper_char_idem)

lemma set_strip: "set (strip s) \<subseteq> set s"
proof -
  have "set (dropWhile is_space (rev (dropWhile is_space s))) \<subseteq> set (dropWhile is_space s)"
    using set_dropWhileD by fastforce
  then show ?thesis
    using set_dropWhileD by (fastforce simp: strip_def)
qed

lemma dropWhile_strip: "dropWhile is_space (strip s) = strip s"
proof (cases "dropWhile is_space s")
  case Nil
  show ?thesis
    unfolding strip_def Nil by simp
next
  case (Cons x xs)
  have nx: "\<not> is_space x"
    using hd_dropWhile[of is_space s] Cons by (metis list.distinct(1) list.sel(1))
  have "\<exists>zs. dropWhile is_space (rev xs @ [x]) = zs @ [x]"
  proof (cases "\<forall>y\<in>set (rev xs). is_space y")
    case True
    then have "dropWhile is_space (rev xs @ [x]) = [] @ [x]"
      using nx by (simp add: dropWhile_append)
    then show ?thesis by blast
  next
    case False
    then have "dropWhile is_space (rev xs @ [x]) = dropWhile is_space (rev xs) @ [x]"
      by (simp add: dropWhile_append)
    then show ?thesis by blast
  qed
  then obtain zs where zs: "dropWhile is_space (rev xs @ [x]) = zs @ [x]"
    by blast
  have "strip s = x # rev zs"
    unfolding strip_def Cons using zs by simp
  then show ?thesis
    using nx by simp
qed

lemma strip_idem: "strip (strip s) = strip s"
proof -
  have "strip (strip s) = rev (dropWhile is_space (rev (strip s)))"
    by (simp add: strip_def[of "strip s"] dropWhile_strip)
  also have "rev (strip s) = dropWhile is_space (rev (dropWhile is_space s))"
    by (simp add: strip_def)
  finally show ?thesis
    by (simp add: strip_def)
qed

lemma strip_upper_fixed: "strip (upper (strip (upper s))) = strip (upper s)"
proof -
  have "\<forall>c \<in> set (strip (upper s)). upper_char c = c"
    using set_strip upper_fixes_upper by blast
  then have "upper (strip (upper s)) = strip (upper s)"
    by (simp add: upper_def map_idI)
  then show ?thesis
    by (simp add: strip_idem)
qed
text \<open>
  Claim C10. The normalising validators are idempotent: when \<open>validate_symbol\<close>
  accepts a string, it accepts its own result and returns it unchanged, and the same
  holds for \<open>validate_side\<close> and \<open>validate_order_type\<close>.
\<close>

theorem C10_validators_idempotent:
  "(validate_symbol s = Inr r \<longrightarrow> validate_symbol r = Inr r) \<and>
   (validate_side s = Inr r \<longrightarrow> validate_side r = Inr r) \<and>
   (validate_order_type s = Inr r \<longrightarrow> validate_order_type r = Inr r)"
proof (intro conjI impI)
  assume a: "validate_symbol s = Inr r"
  then have r: "r = strip (upper s)" and e: "endswith r ''USDT''" and l: "\<not> length r < 5"
    by (auto simp: validate_symbol_def Let_def split: if_splits)
  from l have "r \<noteq> []" by auto
  moreover have "strip (upper r) = r"
    unfolding r by (rule strip_upper_fixed)
  ultimately show "validate_symbol r = Inr r"
    using e l by (simp add: validate_symbol_def Let_def)
next
  assume "validate_side s = Inr r"
  then have "r = ''BUY'' \<or> r = ''SELL''"
    by (auto simp: validate_side_def Let_def split: if_splits)
  then show "validate_side r = Inr r"
    using validate_side_BUY validate_side_SELL by auto
next
  assume "validate_order_type s = Inr r"
  then have "r = ''MARKET'' \<or> r = ''LIMIT''"
    by (auto simp: validate_order_type_def Let_def split: if_splits)
  then show "validate_order_type r = Inr r"
    using validate_order_type_MARKET validate_order_type_LIMIT by auto
qed

theorem C10_validators_idempotent_witness:
  "validate_symbol ''btcusdt'' = Inr ''BTCUSDT'' \<and>
   validate_symbol ''BTCUSDT'' = Inr ''BTCUSDT'' \<and>
   validate_side ''buy'' = Inr ''BUY'' \<and>
   validate_side ''BUY'' = Inr ''BUY'' \<and>
   validate_order_type ''market'' = Inr ''MARKET'' \<and>
   validate_order_type ''MARKET'' = Inr ''MARKET''"
  using C10_validators_idempotent [of "''btcusdt''" "''BTCUSDT''"]
    C10_validators_idempotent [of "''buy''" "''BUY''"]
    C10_validators_idempotent [of "''market''" "''MARKET''"]
    validate_symbol_btcusdt validate_side_buy validate_order_type_market
  by simp

lemma validate_quantity_1: "validate_quantity ''1'' = Inr (Finite 1)"
  by (simp add: validate_quantity_def py_float_1)

lemma validate_quantity_0:
  "validate_quantity ''0'' = Inl (ValidationError ''Quantity must be greater than 0'')"
  by (simp add: validate_quantity_def py_float_0)

lemma validate_quantity_abc:
  "validate_quantity ''abc'' = Inl (ValidationError ''Quantity must be a valid number'')"
  by (simp add: validate_quantity_def py_float_abc)

lemma validate_quantity_0_01:
  "validate_quantity ''0.01'' = Inr (Finite (5764607523034235 / 576460752303423488))"
  by (simp add: validate_quantity_def py_float_0_01)

lemma validate_price_abc:
  "validate_price (Some ''abc'') = Inl (ValidationError ''Price must be a valid number'')"
  by (simp add: validate_price_def py_float_abc)

lemma validate_price_nan: "validate_price (Some ''nan'') = Inr (Some NaN)"
  by (simp add: validate_price_def py_float_nan)

lemma validate_market_1:
  "validate_order_params ''BTCUSDT'' ''BUY'' ''MARKET'' ''1'' None =
     Inr \<lparr>v_symbol = ''BTCUSDT'', v_side = ''BUY'', v_type = ''MARKET'',
          v_quantity = Finite 1, v_price = None\<rparr>"
  by (simp add: validate_order_params_def validate_symbol_BTCUSDT validate_side_BUY
      validate_order_type_MARKET validate_quantity_1)

lemma validate_market_0:
  "validate_order_params ''BTCUSDT'' ''BUY'' ''MARKET'' ''0'' None =
     Inl (ValidationError ''Quantity must be greater than 0'')"
  by (simp add: validate_order_params_def validate_symbol_BTCUSDT validate_side_BUY
      validate_order_type_MARKET validate_quantity_0)

lemma validate_market_abc:
  "validate_order_params ''BTCUSDT'' ''BUY'' ''MARKET'' ''abc'' None =
     Inl (ValidationError ''Quantity must be a valid number'')"
  by (simp add: validate_order_params_def validate_symbol_BTCUSDT validate_side_BUY
      validate_order_type_MARKET validate_quantity_abc)

section \<open>Validation comes before every connector call\<close>

text \<open>
  Claim C5. When the parameters fail validation, \<open>place_order\<close> raises that validation
  failure and has invoked no connector method: the list of connector calls is what it
  was before (neither \<open>get_symbol_info\<close> nor a placement method was called).
\<close>

theorem C5_validation_before_network:
  assumes "validate_order_params symbol side order_type quantity price = Inl e"
  shows "fst (place_order c symbol side order_type quantity price st) = Inl e \<and>
         calls (snd (place_order c symbol side order_type quantity price st)) = calls st"
  using assms by (simp add: place_order_def log_info_def Let_def)

theorem C5_validation_before_network_witness:
  "validate_order_params ''BTCUSDT'' ''BUY'' ''MARKET'' ''0'' None =
     Inl (ValidationError ''Quantity must be greater than 0'') \<and>
   fst (place_order client_sparse ''BTCUSDT'' ''BUY'' ''MARKET'' ''0'' None st0) =
     Inl (ValidationError ''Quantity must be greater than 0'') \<and>
   calls (snd (place_order client_sparse ''BTCUSDT'' ''BUY'' ''MARKET'' ''0'' None st0)) = [] \<and>
   validate_order_params ''BTCUSDT'' ''BUY'' ''MARKET'' ''abc'' None =
     Inl (ValidationError ''Quantity must be a valid number'') \<and>
   fst (place_order client_sparse ''BTCUSDT'' ''BUY'' ''MARKET'' ''abc'' None st0) =
     Inl (ValidationError ''Quantity must be a valid number'') \<and>
   calls (snd (place_order client_sparse ''BTCUSDT'' ''BUY'' ''MARKET'' ''abc'' None st0)) = []"
  using C5_validation_before_network [OF validate_market_0, of client_sparse st0]
    C5_validation_before_network [OF validate_market_abc, of client_sparse st0]
    validate_market_0 validate_market_abc
  by (simp add: st0_def)

section \<open>The connection test never raises\<close>

text \<open>
  Claim C8. \<open>test_connection\<close> always returns a boolean and raises nothing: the result
  is \<open>True\<close> exactly when the GET on the account endpoint answers with status 200, and
  \<open>False\<close> for every other status and for every exception raised by the request.
\<close>

theorem C8_test_connection_total:
  "test_connection w self =
     Inr (case requests_get w (TESTNET_BASE_URL @ ''/fapi/v2/account'')
                 [(''X-MBX-APIKEY'', api_key self)]
                 [(''timestamp'', JInt (time_ms w)),
                  (''signature'',
                   JStr (generate_signature w self [(''timestamp'', JInt (time_ms w))]))] of
            Inl e \<Rightarrow> False
          | Inr response \<Rightarrow> status_code response = 200)"
  by (simp add: test_connection_def test_connection_try_def Let_def split: sum.splits)

section \<open>The tradability gate\<close>

text \<open>
  Claim C2, as the specification states it, asks for a failure of a kind other than
  the validation failure. The code raises \<open>ValidationError\<close> in both cases: with the
  exchange reporting status \<open>BREAK\<close>, and with the symbol absent.
\<close>

theorem C2_counterexample:
  "fst (place_order client_break ''BTCUSDT'' ''BUY'' ''MARKET'' ''1'' None st0) =
     Inl (ValidationError ''Symbol BTCUSDT is not currently trading'') \<and>
   is_validation_error (ValidationError ''Symbol BTCUSDT is not currently trading'') \<and>
   fst (place_order client_absent ''BTCUSDT'' ''BUY'' ''MARKET'' ''1'' None st0) =
     Inl (ValidationError ''Symbol BTCUSDT not found or not tradable'') \<and>
   is_validation_error (ValidationError ''Symbol BTCUSDT not found or not tradable'')"
  by (simp add: place_order_def validate_market_1 client_break_def client_absent_def Let_def)

text \<open>
  Claim C2, amended. For every order that passes validation and whose fetched symbol
  information is absent, empty, or has a status other than \<open>TRADING\<close>, \<open>place_order\<close>
  aborts with a \<open>ValidationError\<close> that names the symbol (`not found or not tradable'
  when absent or empty, `is not currently trading' otherwise), and the only connector
  method invoked is \<open>get_symbol_info\<close>: no order is placed.
\<close>

theorem C2_tradability_gate:
  assumes "validate_order_params symbol side order_type quantity price = Inr params"
    and "not_tradable (get_symbol_info c (v_symbol params))"
  shows "fst (place_order c symbol side order_type quantity price st) =
           Inl (ValidationError
                  (''Symbol '' @ v_symbol params @
                   (if get_symbol_info c (v_symbol params) = None \<or>
                       get_symbol_info c (v_symbol params) = Some []
                    then '' not found or not tradable''
                    else '' is not currently trading''))) \<and>
         calls (snd (place_order c symbol side order_type quantity price st)) =
           calls st @ [GetSymbolInfo (v_symbol params)]"
  using assms
  by (auto simp: place_order_def not_tradable_def log_info_def record_call_def Let_def)

theorem C2_tradability_gate_witness:
  "not_tradable (get_symbol_info client_break ''BTCUSDT'') \<and>
   fst (place_order client_break ''BTCUSDT'' ''BUY'' ''MARKET'' ''1'' None st0) =
     Inl (ValidationError ''Symbol BTCUSDT is not currently trading'') \<and>
   calls (snd (place_order client_break ''BTCUSDT'' ''BUY'' ''MARKET'' ''1'' None st0)) =
     [GetSymbolInfo ''BTCUSDT'']"
proof -
  have nt: "not_tradable (get_symbol_info client_break
      (v_symbol \<lparr>v_symbol = ''BTCUSDT'', v_side = ''BUY'', v_type = ''MARKET'',
                 v_quantity = Finite 1, v_price = None\<rparr>))"
    by (simp add: not_tradable_def client_break_def)
  show ?thesis
    using C2_tradability_gate [OF validate_market_1 nt, of st0] nt
    by (simp add: client_break_def st0_def)
qed

section \<open>What a successful placement returns\<close>

text \<open>
  Claim C6, as the specification states it, has \<open>place_order\<close> return the normalised
  record with a sentinel for every absent field. With an exchange response that holds
  only \<open>orderId\<close>, the code returns that response as it is: it is not the normalised
  record, and it has no \<open>symbol\<close> key.
\<close>

theorem C6_counterexample:
  "fst (place_order client_sparse ''BTCUSDT'' ''BUY'' ''MARKET'' ''1'' None st0) =
     Inr [(''orderId'', JInt 1)] \<and>
   spec_order_result [(''orderId'', JInt 1)] \<noteq> [(''orderId'', JInt 1)] \<and>
   map_of [(''orderId'', JInt 1)] ''symbol'' = None"
  by (simp add: place_order_def validate_market_1 client_sparse_def Let_def
      om_place_market_order_def spec_order_result_def)

text \<open>
  Claim C6, amended. For every successful placement, the value returned by
  \<open>place_order\<close> is the exchange's response exactly as the connector's placement method
  returned it (the market method for a MARKET order, the limit method otherwise), and
  the view with the sentinel \<open>'N/A'\<close> for absent fields exists in the log only: the
  log ends with the lines of \<open>_log_order_response\<close> for that response.
\<close>

theorem C6_returns_raw_response:
  assumes "place_order c symbol side order_type quantity price st = (Inr r, st')"
  shows "(\<exists>params. validate_order_params symbol side order_type quantity price = Inr params \<and>
            (if v_type params = ''MARKET''
             then place_market_order c (v_symbol params) (v_side params) (v_quantity params)
                    = Inr r
             else \<exists>p. v_price params = Some p \<and>
                    place_limit_order c (v_symbol params) (v_side params) (v_quantity params) p
                      = Inr r)) \<and>
         (\<exists>ls. logged st' = ls @ order_response_lines r)"
  using assms
  by (auto simp: place_order_def om_place_market_order_def om_place_limit_order_def
      log_order_response_def log_info_def record_call_def Let_def
      split: sum.splits if_splits option.splits)

theorem C6_returns_raw_response_witness:
  "place_order client_sparse ''BTCUSDT'' ''BUY'' ''MARKET'' ''1'' None st0 =
     (Inr [(''orderId'', JInt 1)],
      snd (place_order client_sparse ''BTCUSDT'' ''BUY'' ''MARKET'' ''1'' None st0)) \<and>
   place_market_order client_sparse ''BTCUSDT'' ''BUY'' (Finite 1) = Inr [(''orderId'', JInt 1)] \<and>
   (\<exists>ls. logged (snd (place_order client_sparse ''BTCUSDT'' ''BUY'' ''MARKET'' ''1'' None st0)) =
          ls @ order_response_lines [(''orderId'', JInt 1)])"
proof -
  have eq: "place_order client_sparse ''BTCUSDT'' ''BUY'' ''MARKET'' ''1'' None st0 =
     (Inr [(''orderId'', JInt 1)],
      snd (place_order client_sparse ''BTCUSDT'' ''BUY'' ''MARKET'' ''1'' None st0))"
    by (simp add: place_order_def validate_market_1 client_sparse_def Let_def
        om_place_market_order_def)
  show ?thesis
    using C6_returns_raw_response [OF eq] eq
    by (simp add: client_sparse_def)
qed

section \<open>The order of the validation rules\<close>

text \<open>
  Claim C1, as the specification states it, has the price parsed (rule 5) before the
  cross-field rule (rule 6), so that a MARKET order with an unparsable price reports
  the parse failure. The code reports the cross-field failure there.
\<close>

theorem C1_counterexample:
  "validate_order_params ''BTCUSDT'' ''BUY'' ''MARKET'' ''1'' (Some ''abc'') =
     Inl (ValidationError ''Price should not be specified for MARKET orders'') \<and>
   spec_validate_order_params ''BTCUSDT'' ''BUY'' ''MARKET'' ''1'' (Some ''abc'') =
     Inl (ValidationError ''Price must be a valid number'')"
  by (simp add: validate_order_params_def spec_validate_order_params_def
      validate_symbol_BTCUSDT validate_side_BUY validate_order_type_MARKET validate_quantity_1
      validate_price_abc)

text \<open>
  Claim C1, amended. For every raw input, validation applies the rules in the order
  symbol format, side, order type, quantity, cross-field price/type rule, and then the
  price parse, which applies to LIMIT orders only; it fails exactly when some rule is
  violated, and the failure reported is that of the first rule violated in that
  order. In particular, a MARKET order with a non-empty price that passes the first
  four rules reports `price not allowed', whether or not the price parses.
\<close>

theorem C1_rule_order:
  "failure (validate_order_params symbol side order_type quantity price) =
     first_failure (rules_in_code_order symbol side order_type quantity price) \<and>
   (failure (validate_symbol symbol) = None \<and> failure (validate_side side) = None \<and>
    validate_order_type order_type = Inr ''MARKET'' \<and>
    failure (validate_quantity quantity) = None \<and> price_given price \<longrightarrow>
    validate_order_params symbol side order_type quantity price =
      Inl (ValidationError ''Price should not be specified for MARKET orders''))"
proof
  have ty: "\<And>ty. validate_order_type order_type = Inr ty \<Longrightarrow> ty = ''MARKET'' \<or> ty = ''LIMIT''"
    by (auto simp: validate_order_type_def Let_def split: if_splits)
  have pr: "price_given price \<Longrightarrow> validate_price price \<noteq> Inr None"
    by (auto simp: validate_price_def price_given_def split: option.splits if_splits)
  show "failure (validate_order_params symbol side order_type quantity price) =
     first_failure (rules_in_code_order symbol side order_type quantity price)"
  proof (cases "validate_symbol symbol")
    case Inl
    then show ?thesis
      by (simp add: validate_order_params_def rules_in_code_order_def failure_def)
  next
    case sy: (Inr a)
    show ?thesis
    proof (cases "validate_side side")
      case Inl
      with sy show ?thesis
        by (simp add: validate_order_params_def rules_in_code_order_def failure_def)
    next
      case sd: (Inr b)
      show ?thesis
      proof (cases "validate_order_type order_type")
        case Inl
        with sy sd show ?thesis
          by (simp add: validate_order_params_def rules_in_code_order_def failure_def)
      next
        case ot: (Inr t)
        show ?thesis
        proof (cases "validate_quantity quantity")
          case Inl
          with sy sd ot show ?thesis
            by (simp add: validate_order_params_def rules_in_code_order_def failure_def)
        next
          case qt: (Inr q)
          from ty [OF ot] show ?thesis
          proof
            assume "t = ''MARKET''"
            with sy sd ot qt show ?thesis
              by (simp add: validate_order_params_def rules_in_code_order_def failure_def
                  cross_field_failure_def limit_price_failure_def price_given_def)
          next
            assume "t = ''LIMIT''"
            with sy sd ot qt pr show ?thesis
              by (cases "validate_price price")
                (auto simp: validate_order_params_def rules_in_code_order_def failure_def
                  cross_field_failure_def limit_price_failure_def price_given_def)
          qed
        qed
      qed
    qed
  qed
  show "failure (validate_symbol symbol) = None \<and> failure (validate_side side) = None \<and>
    validate_order_type order_type = Inr ''MARKET'' \<and>
    failure (validate_quantity quantity) = None \<and> price_given price \<longrightarrow>
    validate_order_params symbol side order_type quantity price =
      Inl (ValidationError ''Price should not be specified for MARKET orders'')"
    by (auto simp: validate_order_params_def failure_def price_given_def Let_def
        split: sum.splits)
qed

theorem C1_rule_order_witness:
  "failure (validate_symbol ''BTCUSDT'') = None \<and> failure (validate_side ''BUY'') = None \<and>
   validate_order_type ''MARKET'' = Inr ''MARKET'' \<and>
   failure (validate_quantity ''1'') = None \<and> price_given (Some ''abc'') \<and>
   first_failure (rules_in_code_order ''BTCUSDT'' ''BUY'' ''MARKET'' ''1'' (Some ''abc'')) =
     Some (ValidationError ''Price should not be specified for MARKET orders'') \<and>
   validate_order_params ''BTCUSDT'' ''BUY'' ''MARKET'' ''1'' (Some ''abc'') =
     Inl (ValidationError ''Price should not be specified for MARKET orders'')"
proof -
  have h: "failure (validate_symbol ''BTCUSDT'') = None \<and> failure (validate_side ''BUY'') = None \<and>
      validate_order_type ''MARKET'' = Inr ''MARKET'' \<and>
      failure (validate_quantity ''1'') = None \<and> price_given (Some ''abc'')"
    by (simp add: failure_def price_given_def validate_symbol_BTCUSDT validate_side_BUY
        validate_order_type_MARKET validate_quantity_1)
  note t = C1_rule_order [of "''BTCUSDT''" "''BUY''" "''MARKET''" "''1''" "Some ''abc''"]
  from t h have v: "validate_order_params ''BTCUSDT'' ''BUY'' ''MARKET'' ''1'' (Some ''abc'') =
      Inl (ValidationError ''Price should not be specified for MARKET orders'')"
    by blast
  from t have "first_failure (rules_in_code_order ''BTCUSDT'' ''BUY'' ''MARKET'' ''1'' (Some ''abc'')) =
      failure (validate_order_params ''BTCUSDT'' ''BUY'' ''MARKET'' ''1'' (Some ''abc''))"
    by simp
  with v have "first_failure (rules_in_code_order ''BTCUSDT'' ''BUY'' ''MARKET'' ''1'' (Some ''abc'')) =
      Some (ValidationError ''Price should not be specified for MARKET orders'')"
    by (simp add: failure_def)
  with h v show ?thesis
    by blast
qed

section \<open>Quantities and prices that are not finite\<close>

text \<open>
  Claim C4, as the specification states it, has every string that parses to a value
  that is not finite rejected. The code accepts \<open>inf\<close>: it parses to positive
  infinity, which is not finite, and \<open>inf <= 0\<close> is false.
\<close>

theorem C4_counterexample:
  "py_float ''inf'' = Some PInf \<and> \<not> is_finite PInf \<and> validate_quantity ''inf'' = Inr PInf"
  by (simp add: validate_quantity_def py_float_inf)

text \<open>
  Claim C4, amended. For every quantity string that \<open>float\<close> does not turn into NaN:
  validation succeeds exactly when the string parses as a float strictly greater than
  zero, a positive finite number or positive infinity, and then returns that float;
  every string that does not parse is rejected (`must be a valid number'), and every
  string that parses to a value less than or equal to zero, negative infinity
  included, is rejected (`must be greater than 0').
\<close>

theorem C4_quantity_positive:
  assumes "py_float s \<noteq> Some NaN"
  shows "validate_quantity s =
     (case py_float s of
        None \<Rightarrow> Inl (ValidationError ''Quantity must be a valid number'')
      | Some v \<Rightarrow>
          if float_gt_zero v then Inr v
          else Inl (ValidationError ''Quantity must be greater than 0''))"
proof (cases "py_float s")
  case None
  then show ?thesis by (simp add: validate_quantity_def)
next
  case (Some v)
  with assms have "v \<noteq> NaN" by simp
  then have "float_le_zero v \<longleftrightarrow> \<not> float_gt_zero v"
    by (cases v) auto
  with Some show ?thesis by (simp add: validate_quantity_def)
qed

theorem C4_quantity_positive_witness:
  "py_float ''0.01'' \<noteq> Some NaN \<and>
   validate_quantity ''0.01'' = Inr (Finite (5764607523034235 / 576460752303423488)) \<and>
   py_float ''0'' \<noteq> Some NaN \<and>
   validate_quantity ''0'' = Inl (ValidationError ''Quantity must be greater than 0'') \<and>
   py_float ''abc'' \<noteq> Some NaN \<and>
   validate_quantity ''abc'' = Inl (ValidationError ''Quantity must be a valid number'')"
proof -
  have a: "py_float ''0.01'' \<noteq> Some NaN" by (simp add: py_float_0_01)
  have b: "py_float ''0'' \<noteq> Some NaN" by (simp add: py_float_0)
  have c: "py_float ''abc'' \<noteq> Some NaN" by (simp add: py_float_abc)
  show ?thesis
    using C4_quantity_positive [OF a] C4_quantity_positive [OF b] C4_quantity_positive [OF c]
    by (simp add: py_float_0_01 py_float_0 py_float_abc)
qed

lemma validate_price_given:
  assumes "validate_price price = Inr y" and "price \<noteq> None" and "price \<noteq> Some []"
  shows "\<exists>p. y = Some p \<and> \<not> float_le_zero p"
proof -
  from assms obtain s where s: "price = Some s" "s \<noteq> []"
    by (cases price) auto
  show ?thesis
  proof (cases "py_float s")
    case None
    with assms s show ?thesis by (simp add: validate_price_def)
  next
    case (Some p)
    have "validate_price price =
        (if float_le_zero p then Inl (ValidationError ''Price must be greater than 0'')
         else Inr (Some p))"
      using s Some by (simp add: validate_price_def)
    with assms(1) have "\<not> float_le_zero p" and "y = Some p"
      by (simp_all split: if_splits)
    then show ?thesis by blast
  qed
qed

text \<open>
  The validated dictionary has the key \<open>price\<close> exactly for a LIMIT order, and its
  value is then a float that passed the test \<open>p <= 0\<close>.
\<close>

lemma price_key_iff_limit:
  assumes "validate_order_params symbol side order_type quantity price = Inr v"
  shows "(v_price v \<noteq> None \<longleftrightarrow> v_type v = ''LIMIT'') \<and>
         (v_type v = ''LIMIT'' \<longrightarrow> (\<exists>p. v_price v = Some (Some p) \<and> \<not> float_le_zero p))"
proof (cases "v_type v = ''LIMIT''")
  case True
  with assms obtain y where "validate_price price = Inr y" and "v_price v = Some y"
      and "price \<noteq> None" and "price \<noteq> Some []"
    by (auto simp: validate_order_params_def Let_def split: sum.splits if_splits)
  moreover from this obtain p where "y = Some p" and "\<not> float_le_zero p"
    using validate_price_given by blast
  ultimately show ?thesis
    using True by simp
next
  case False
  with assms show ?thesis
    by (auto simp: validate_order_params_def Let_def split: sum.splits if_splits)
qed

text \<open>
  Claim C7. A successful LIMIT validation is claimed always to carry a strictly positive
  price. For the price string \<open>nan\<close> the code returns a validated LIMIT order whose
  price is NaN, which is not greater than zero: the test \<open>p <= 0\<close> lets NaN through,
  although the failure it guards is `Price must be greater than 0'.
\<close>

theorem C7_nan_price_accepted:
  "validate_order_params ''BTCUSDT'' ''BUY'' ''LIMIT'' ''1'' (Some ''nan'') =
     Inr \<lparr>v_symbol = ''BTCUSDT'', v_side = ''BUY'', v_type = ''LIMIT'',
          v_quantity = Finite 1, v_price = Some (Some NaN)\<rparr> \<and>
   \<not> float_gt_zero NaN"
  by (simp add: validate_order_params_def validate_symbol_BTCUSDT validate_side_BUY
      validate_order_type_LIMIT validate_quantity_1 validate_price_nan)

end
